theory Spec2Isabelle
  imports Main
begin

section \<open>JavaScript values used by the listing view\<close>

text \<open>
  A JavaScript string is modelled by the list of the bytes of its UTF-8 encoding (the
  strings here come from the URL and from text inputs). A string is empty, or equal to an
  ASCII text, exactly when its encoding is.
\<close>

subsection \<open>Numbers\<close>

text \<open>
  A JavaScript number that holds a page number: \<open>NaN\<close>, an integer (\<open>Num\<close>, for the
  integers that are IEEE 754 doubles), negative zero, or an infinity. These are the values
  that \<open>parseInt\<close> returns and that adding or subtracting 1 keeps to.
\<close>

datatype jsnum = NaN | Num int | NegZero | PosInf | NegInf

text \<open>The number of binary digits of a positive integer.\<close>

function bit_length :: "int \<Rightarrow> nat" where
  "bit_length n = (if n \<le> 0 then 0 else Suc (bit_length (n div 2)))"
  by pat_completeness auto
termination
  by (relation "measure nat") auto

declare bit_length.simps [simp del]

text \<open>
  The double nearest to an integer other than zero, ties to the even significand. Below
  \<open>2 ^ 53\<close> in magnitude every integer is a double. Above, with \<open>e\<close> the number of binary
  digits beyond 53, the integer is rounded to a multiple of \<open>2 ^ e\<close>; a result of
  \<open>2 ^ 1024\<close> or more is infinite.
\<close>

definition to_double :: "int \<Rightarrow> jsnum" where
  "to_double i =
     (let n = \<bar>i\<bar> in
      if n < 2 ^ 53 then Num i
      else
        (let e = bit_length n - 53;
             q = n div 2 ^ e;
             r = n mod 2 ^ e;
             q' = (if 2 ^ e < 2 * r \<or> (2 * r = 2 ^ e \<and> odd q) then q + 1 else q);
             m = q' * 2 ^ e
         in if 2 ^ 1024 \<le> m then (if i < 0 then NegInf else PosInf)
            else Num (if i < 0 then - m else m)))"

text \<open>
  \<open>x + d\<close> for an integer \<open>d\<close> (the code adds 1 and subtracts 1): the exact sum,
  rounded to a double. \<open>NaN\<close> and the infinities are absorbing, and negative zero plus
  \<open>d\<close> is \<open>d\<close>.
\<close>

fun js_add :: "jsnum \<Rightarrow> int \<Rightarrow> jsnum" where
  "js_add NaN d = NaN"
| "js_add (Num n) d = to_double (n + d)"
| "js_add NegZero d = to_double d"
| "js_add PosInf d = PosInf"
| "js_add NegInf d = NegInf"

text \<open>The values that are stored under a key of the \<open>params\<close> object of a request.\<close>

datatype jsval = JStr string | JBool bool | JNum jsnum

text \<open>
  \<open>a || d\<close> where \<open>a\<close> is a string or \<open>null\<close> (what \<open>URLSearchParams.get\<close>
  returns): \<open>null\<close> and the empty string are falsy, every other string is truthy.
\<close>

definition or_else :: "string option \<Rightarrow> string \<Rightarrow> string" where
  "or_else a d = (case a of None \<Rightarrow> d | Some v \<Rightarrow> if v = [] then d else v)"

subsection \<open>White space\<close>

text \<open>
  The code points that \<open>parseInt\<close> and \<open>trim\<close> take for white space, each in UTF-8:
  TAB, LF, VT, FF, CR, SP, U+00A0, U+1680, U+2000 to U+200A, U+2028, U+2029, U+202F,
  U+205F, U+3000 and U+FEFF (white space, line terminators and the space separators of
  Unicode).
\<close>

definition white_space_codes :: "string list" where
  "white_space_codes =
     [[CHR 0x09], [CHR 0x0A], [CHR 0x0B], [CHR 0x0C], [CHR 0x0D], [CHR 0x20],
      [CHR 0xC2, CHR 0xA0],
      [CHR 0xE1, CHR 0x9A, CHR 0x80],
      [CHR 0xE2, CHR 0x80, CHR 0x80], [CHR 0xE2, CHR 0x80, CHR 0x81],
      [CHR 0xE2, CHR 0x80, CHR 0x82], [CHR 0xE2, CHR 0x80, CHR 0x83],
      [CHR 0xE2, CHR 0x80, CHR 0x84], [CHR 0xE2, CHR 0x80, CHR 0x85],
      [CHR 0xE2, CHR 0x80, CHR 0x86], [CHR 0xE2, CHR 0x80, CHR 0x87],
      [CHR 0xE2, CHR 0x80, CHR 0x88], [CHR 0xE2, CHR 0x80, CHR 0x89],
      [CHR 0xE2, CHR 0x80, CHR 0x8A],
      [CHR 0xE2, CHR 0x80, CHR 0xA8], [CHR 0xE2, CHR 0x80, CHR 0xA9],
      [CHR 0xE2, CHR 0x80, CHR 0xAF],
      [CHR 0xE2, CHR 0x81, CHR 0x9F],
      [CHR 0xE3, CHR 0x80, CHR 0x80],
      [CHR 0xEF, CHR 0xBB, CHR 0xBF]]"

text \<open>The number of bytes of the white space code point a string starts with, or 0.\<close>

definition white_space_at :: "string \<Rightarrow> nat" where
  "white_space_at s =
     (case find (\<lambda>w. take (length w) s = w) white_space_codes of
        None \<Rightarrow> 0
      | Some w \<Rightarrow> length w)"

text \<open>The string without its leading white space.\<close>

function skip_white_space :: "string \<Rightarrow> string" where
  "skip_white_space s =
     (if white_space_at s = 0 then s else skip_white_space (drop (white_space_at s) s))"
  by pat_completeness auto
termination
proof (relation "measure length")
  show "wf (measure length)" by simp
next
  fix s :: string
  assume nonzero: "white_space_at s \<noteq> 0"
  have "white_space_at s \<le> length s"
  proof (cases "find (\<lambda>w. take (length w) s = w) white_space_codes")
    case None
    then show ?thesis by (simp add: white_space_at_def)
  next
    case (Some w)
    then have "take (length w) s = w"
      by (auto simp add: find_Some_iff)
    then have "length (take (length w) s) = length w"
      by simp
    then have "length w \<le> length s"
      by (simp add: min_def split: if_splits)
    with Some show ?thesis by (simp add: white_space_at_def)
  qed
  with nonzero show "(drop (white_space_at s) s, s) \<in> measure length"
    by simp
qed

declare skip_white_space.simps [simp del]

text \<open>
  \<open>String.prototype.trim\<close>, used only to state what "empty after trimming" means: the
  leading white space is skipped, and the string is cut where only white space follows.
\<close>

fun trim_end :: "string \<Rightarrow> string" where
  "trim_end [] = []"
| "trim_end (c # cs) = (if skip_white_space (c # cs) = [] then [] else c # trim_end cs)"

definition js_trim :: "string \<Rightarrow> string" where
  "js_trim s = trim_end (skip_white_space s)"

subsection \<open>\<open>parseInt\<close> with no radix argument\<close>

definition digit_value :: "char \<Rightarrow> nat option" where
  "digit_value c =
     (let n = (of_char c :: nat) in
      if 48 \<le> n \<and> n \<le> 57 then Some (n - 48)
      else if 97 \<le> n \<and> n \<le> 122 then Some (n - 87)
      else if 65 \<le> n \<and> n \<le> 90 then Some (n - 55)
      else None)"

definition is_radix_digit :: "nat \<Rightarrow> char \<Rightarrow> bool" where
  "is_radix_digit r c = (case digit_value c of None \<Rightarrow> False | Some d \<Rightarrow> d < r)"

definition digits_value :: "nat \<Rightarrow> string \<Rightarrow> int" where
  "digits_value r z =
     foldl (\<lambda>a c. case digit_value c of None \<Rightarrow> a | Some d \<Rightarrow> a * int r + int d) 0 z"

text \<open>
  The steps of \<open>parseInt(string)\<close>: skip leading white space, read a sign, strip a
  \<open>0x\<close> or \<open>0X\<close> prefix (the radix is then 16, otherwise 10), take the longest prefix of
  digits of the radix. No digit gives \<open>NaN\<close>; the digits of zero give zero with the sign
  read; otherwise the result is the double nearest to the signed integer. (For more than
  20 significant decimal digits ECMAScript also allows the digits after the 20th to be
  read as zeros; the engines round the exact integer, as is done here.)
\<close>

definition parseInt :: "string \<Rightarrow> jsnum" where
  "parseInt input =
     (let s = skip_white_space input;
          sign = (case s of [] \<Rightarrow> 1 | c # _ \<Rightarrow> if c = CHR ''-'' then - 1 else (1::int));
          s = (case s of [] \<Rightarrow> s
                | c # rest \<Rightarrow> if c = CHR ''+'' \<or> c = CHR ''-'' then rest else s);
          hex = (take 2 s = ''0x'' \<or> take 2 s = ''0X'');
          r = (if hex then 16 else 10);
          s = (if hex then drop 2 s else s);
          z = takeWhile (is_radix_digit r) s;
          mathInt = digits_value r z
      in if z = [] then NaN
         else if mathInt = 0 then (if sign = - 1 then NegZero else Num 0)
         else to_double (sign * mathInt))"

section \<open>The Directory component (\<open>pages/Directory.jsx\<close>)\<close>

subsection \<open>State\<close>

text \<open>
  The \<open>filters\<close> object. \<open>zip_f\<close> is the key \<open>zip\<close>. \<open>is_independent\<close> is a
  boolean or \<open>null\<close> (\<open>None\<close>): the code tests it against \<open>null\<close> before sending it.
\<close>

record filters =
  search :: string
  state :: string
  city :: string
  zip_f :: string
  is_independent :: "bool option"
  page :: jsnum

text \<open>
  The response body of the listing endpoint, \<open>{data, total, page, total_pages}\<close>,
  held in the state variable \<open>data\<close>.
\<close>

record 'r result_page =
  res_data :: "'r list"
  res_total :: int
  res_page :: int
  res_total_pages :: int

text \<open>
  The component's state: the URL's query parameters (\<open>searchParams\<close>), the five
  \<open>useState\<close> variables, and a log of each effect the component has on the outside:
  the \<open>params\<close> of every \<open>api.get('/pharmacies', ...)\<close> call (\<open>issued\<close>), every
  value given to \<open>console.error\<close> (\<open>console\<close>), and the query entries of every URL
  given to \<open>window.open\<close> (\<open>opened\<close>).
\<close>

record ('r, 'e) directory =
  searchParams :: "string \<rightharpoonup> string"
  data :: "'r result_page"
  states :: "(string \<times> int) list"
  loading :: bool
  filters :: filters
  showFilters :: bool
  issued :: "(string \<times> jsval) list list"
  console :: "'e list"
  opened :: "(string \<times> string) list list"

subsection \<open>Initial state (lines 10 to 21)\<close>

definition initial_filters :: "(string \<rightharpoonup> string) \<Rightarrow> filters" where
  "initial_filters sp =
     \<lparr> search = or_else (sp ''search'') '''',
       state = or_else (sp ''state'') '''',
       city = or_else (sp ''city'') '''',
       zip_f = or_else (sp ''zip'') '''',
       is_independent = Some (sp ''is_independent'' \<noteq> Some ''false''),
       page = parseInt (or_else (sp ''page'') ''1'') \<rparr>"

definition initial_state :: "(string \<rightharpoonup> string) \<Rightarrow> ('r, 'e) directory" where
  "initial_state sp =
     \<lparr> searchParams = sp,
       data = \<lparr> res_data = [], res_total = 0, res_page = 1, res_total_pages = 0 \<rparr>,
       states = [],
       loading = False,
       filters = initial_filters sp,
       showFilters = True,
       issued = [],
       console = [],
       opened = [] \<rparr>"

subsection \<open>\<open>fetchData\<close> (lines 27 to 47)\<close>

text \<open>The \<open>params\<close> object built in lines 30 to 37, keys in insertion order.\<close>

definition fetch_params :: "filters \<Rightarrow> (string \<times> jsval) list" where
  "fetch_params f =
     (if search f \<noteq> [] then [(''search'', JStr (search f))] else []) @
     (if state f \<noteq> [] then [(''state'', JStr (state f))] else []) @
     (if city f \<noteq> [] then [(''city'', JStr (city f))] else []) @
     (if zip_f f \<noteq> [] then [(''zip'', JStr (zip_f f))] else []) @
     (case is_independent f of None \<Rightarrow> [] | Some b \<Rightarrow> [(''is_independent'', JBool b)]) @
     [(''page'', JNum (page f)), (''per_page'', JNum (Num 50))]"

text \<open>
  \<open>fetchData\<close> runs up to its \<open>await\<close>: \<open>setLoading(true)\<close>, then the request is
  sent with the parameters of the current filters.
\<close>

definition fetchData_start :: "('r, 'e) directory \<Rightarrow> ('r, 'e) directory" where
  "fetchData_start s = s\<lparr> loading := True, issued := issued s @ [fetch_params (filters s)] \<rparr>"

text \<open>
  The rest of \<open>fetchData\<close>, run when a request's promise settles. On success
  \<open>setData(res.data)\<close>; on failure \<open>console.error(e)\<close>; in both cases
  \<open>setLoading(false)\<close>. Nothing here looks at which request has settled.
\<close>

definition fetchData_resolved :: "'r result_page \<Rightarrow> ('r, 'e) directory \<Rightarrow> ('r, 'e) directory" where
  "fetchData_resolved res s = s\<lparr> data := res, loading := False \<rparr>"

definition fetchData_rejected :: "'e \<Rightarrow> ('r, 'e) directory \<Rightarrow> ('r, 'e) directory" where
  "fetchData_rejected e s = s\<lparr> console := console s @ [e], loading := False \<rparr>"

text \<open>
  \<open>setFilters(g)\<close> stores a new \<open>filters\<close> object; \<open>fetchData\<close> depends on
  \<open>filters\<close>, so the effect of line 47 starts a fetch after every such update.
\<close>

definition setFilters :: "(filters \<Rightarrow> filters) \<Rightarrow> ('r, 'e) directory \<Rightarrow> ('r, 'e) directory" where
  "setFilters g s = fetchData_start (s\<lparr> filters := g (filters s) \<rparr>)"

text \<open>Mounting the component: the initial state, then the effect of line 47.\<close>

definition mount :: "(string \<rightharpoonup> string) \<Rightarrow> ('r, 'e) directory" where
  "mount sp = fetchData_start (initial_state sp)"

subsection \<open>\<open>updateFilter\<close> (lines 49 to 51)\<close>

text \<open>
  A key of the \<open>filters\<close> object with the value to store under it. The inputs of the
  filter panel call \<open>updateFilter\<close> with the first five; \<open>Page\<close> is the key \<open>page\<close>.
\<close>

datatype filter_update =
  Search string | State string | City string | Zip string | Is_independent bool | Page jsnum

text \<open>The computed property \<open>[key]: value\<close> of the object literal.\<close>

fun assign :: "filter_update \<Rightarrow> filters \<Rightarrow> filters" where
  "assign (Search v) f = f\<lparr> search := v \<rparr>"
| "assign (State v) f = f\<lparr> state := v \<rparr>"
| "assign (City v) f = f\<lparr> city := v \<rparr>"
| "assign (Zip v) f = f\<lparr> zip_f := v \<rparr>"
| "assign (Is_independent v) f = f\<lparr> is_independent := Some v \<rparr>"
| "assign (Page v) f = f\<lparr> page := v \<rparr>"

text \<open>\<open>{ ...prev, [key]: value, page: 1 }\<close>: the later \<open>page: 1\<close> wins over the key.\<close>

definition updateFilter :: "filter_update \<Rightarrow> ('r, 'e) directory \<Rightarrow> ('r, 'e) directory" where
  "updateFilter u s = setFilters (\<lambda>prev. (assign u prev)\<lparr> page := Num 1 \<rparr>) s"

subsection \<open>\<open>exportCSV\<close> (lines 53 to 59)\<close>

text \<open>
  The entries of the \<open>URLSearchParams\<close> object, in insertion order; \<open>set\<close> stores
  the string of its value (\<open>true\<close> or \<open>false\<close> for a boolean).
\<close>

definition export_params :: "filters \<Rightarrow> (string \<times> string) list" where
  "export_params f =
     (if state f \<noteq> [] then [(''state'', state f)] else []) @
     (case is_independent f of None \<Rightarrow> []
      | Some b \<Rightarrow> [(''is_independent'', if b then ''true'' else ''false'')]) @
     (if search f \<noteq> [] then [(''search'', search f)] else [])"

definition exportCSV :: "('r, 'e) directory \<Rightarrow> ('r, 'e) directory" where
  "exportCSV s = s\<lparr> opened := opened s @ [export_params (filters s)] \<rparr>"

subsection \<open>Pagination buttons (lines 185 to 203)\<close>

text \<open>
  The buttons are rendered only when \<open>data.total_pages > 1\<close>; a disabled button does
  not run its \<open>onClick\<close>. Both conditions read \<open>data\<close>, the last response stored, not
  \<open>filters\<close>.
\<close>

definition pagination_shown :: "('r, 'e) directory \<Rightarrow> bool" where
  "pagination_shown s = (res_total_pages (data s) > 1)"

definition prev_disabled :: "('r, 'e) directory \<Rightarrow> bool" where
  "prev_disabled s = (res_page (data s) \<le> 1)"

definition next_disabled :: "('r, 'e) directory \<Rightarrow> bool" where
  "next_disabled s = (res_page (data s) \<ge> res_total_pages (data s))"

definition click_prev :: "('r, 'e) directory \<Rightarrow> ('r, 'e) directory" where
  "click_prev s =
     (if pagination_shown s \<and> \<not> prev_disabled s
      then setFilters (\<lambda>f. f\<lparr> page := js_add (page f) (- 1) \<rparr>) s
      else s)"

definition click_next :: "('r, 'e) directory \<Rightarrow> ('r, 'e) directory" where
  "click_next s =
     (if pagination_shown s \<and> \<not> next_disabled s
      then setFilters (\<lambda>f. f\<lparr> page := js_add (page f) 1 \<rparr>) s
      else s)"

subsection \<open>Histories of the component\<close>

text \<open>
  What can happen to a mounted component, one event at a time (the event loop is
  single-threaded): a user action, or the settling of a request's promise. Responses
  arrive in any order. \<open>StatesLoaded\<close> is the response to the request for the list
  of states (lines 23 to 25), whose failure is ignored; \<open>ShowFilters\<close> opens or closes
  the filter panel.
\<close>

datatype ('r, 'e) event =
    Update filter_update
  | Prev
  | Next
  | Export
  | StatesLoaded "(string \<times> int) list"
  | ShowFilters bool
  | Resolved "'r result_page"
  | Rejected 'e

fun step :: "('r, 'e) directory \<Rightarrow> ('r, 'e) event \<Rightarrow> ('r, 'e) directory" where
  "step s (Update u) = updateFilter u s"
| "step s Prev = click_prev s"
| "step s Next = click_next s"
| "step s Export = exportCSV s"
| "step s (StatesLoaded xs) = s\<lparr> states := xs \<rparr>"
| "step s (ShowFilters b) = s\<lparr> showFilters := b \<rparr>"
| "step s (Resolved res) = fetchData_resolved res s"
| "step s (Rejected e) = fetchData_rejected e s"

definition run :: "('r, 'e) directory \<Rightarrow> ('r, 'e) event list \<Rightarrow> ('r, 'e) directory" where
  "run s es = foldl step s es"

text \<open>
  The last successful response of a history, if any: the one that arrived last, whatever
  request it answers.
\<close>

fun last_resolved :: "('r, 'e) event list \<Rightarrow> 'r result_page option" where
  "last_resolved [] = None"
| "last_resolved (e # es) =
     (case last_resolved es of
        Some r \<Rightarrow> Some r
      | None \<Rightarrow> (case e of Resolved r \<Rightarrow> Some r | _ \<Rightarrow> None))"

text \<open>
  Everything the JSX of the component reads when it renders: the five state variables.
  The console is not among them.
\<close>

definition rendered ::
  "('r, 'e) directory \<Rightarrow> 'r result_page \<times> (string \<times> int) list \<times> bool \<times> filters \<times> bool" where
  "rendered s = (data s, states s, loading s, filters s, showFilters s)"

section \<open>The session store (\<open>AuthProvider\<close> and \<open>ProtectedRoute\<close> in \<open>App.jsx\<close>)\<close>

text \<open>
  The body of a successful login response, \<open>{access_token, user}\<close>. The identity is an
  object (truthy), as the login endpoint's contract has it.
\<close>

record 'u login_response =
  access_token :: string
  user :: 'u

text \<open>
  \<open>token\<close> is the item \<open>token\<close> of \<open>localStorage\<close> (\<open>None\<close> when absent);
  \<open>auth_user\<close> and \<open>auth_loading\<close> are the state variables \<open>user\<close> (\<open>None\<close> is
  \<open>null\<close>) and \<open>loading\<close> of \<open>AuthProvider\<close>.
\<close>

record 'u session =
  token :: "string option"
  auth_user :: "'u option"
  auth_loading :: bool

text \<open>
  \<open>login\<close> (lines 33 to 38). The module \<open>api\<close> is not part of the sources read here:
  \<open>post\<close> stands for \<open>api.post('/auth/login', {email, password})\<close>, giving either the
  value the promise is rejected with or the response body. A rejection leaves the
  \<open>await\<close> as an exception, so the three statements after it do not run and the caller
  gets the error. The function reads no state before the \<open>await\<close>, so \<open>s\<close> is the
  state at the time the promise settles.
\<close>

definition login ::
  "(string \<Rightarrow> string \<Rightarrow> 'e + 'u login_response) \<Rightarrow> string \<Rightarrow> string \<Rightarrow> 'u session
     \<Rightarrow> ('e + 'u login_response) \<times> 'u session" where
  "login post email password s =
     (case post email password of
        Inl err \<Rightarrow> (Inl err, s)
      | Inr res \<Rightarrow>
          (Inr res, s\<lparr> token := Some (access_token res), auth_user := Some (user res) \<rparr>))"

text \<open>\<open>ProtectedRoute\<close> (lines 60 to 64) renders its children unless \<open>!user\<close>.\<close>

definition ProtectedRoute :: "'u session \<Rightarrow> bool" where
  "ProtectedRoute s = (auth_user s \<noteq> None)"

section \<open>Concrete inputs for the instances below\<close>

definition page_CA :: "nat result_page" where
  "page_CA = \<lparr> res_data = [1], res_total = 1, res_page = 1, res_total_pages = 1 \<rparr>"

definition page_NY :: "nat result_page" where
  "page_NY = \<lparr> res_data = [2], res_total = 1, res_page = 1, res_total_pages = 1 \<rparr>"

definition page_of_5 :: "int \<Rightarrow> nat result_page" where
  "page_of_5 n = \<lparr> res_data = [], res_total = 230, res_page = n, res_total_pages = 5 \<rparr>"

definition austin :: filters where
  "austin = initial_filters [''city'' \<mapsto> ''Austin'']"

definition demo_server :: "string \<Rightarrow> string \<Rightarrow> string + string login_response" where
  "demo_server email password =
     (if email = ''admin@pharma.local'' \<and> password = ''admin123''
      then Inr \<lparr> access_token = ''T'', user = ''admin@pharma.local'' \<rparr>
      else Inl ''401'')"

definition anonymous :: "string session" where
  "anonymous = \<lparr> token = None, auth_user = None, auth_loading = False \<rparr>"

section \<open>Basic facts\<close>

lemmas directory_defs =
  mount_def initial_state_def updateFilter_def setFilters_def fetchData_start_def
  fetchData_resolved_def fetchData_rejected_def exportCSV_def click_prev_def click_next_def
  pagination_shown_def prev_disabled_def next_disabled_def

lemmas parse_defs =
  initial_filters_def or_else_def parseInt_def skip_white_space.simps white_space_at_def
  white_space_codes_def is_radix_digit_def digit_value_def digits_value_def to_double_def

text \<open>\<open>parseInt\<close> at the parameters used below, and the doubles below \<open>2 ^ 53\<close>.\<close>

lemma parseInt_digit_0: "parseInt ''0'' = Num 0"
  by (simp add: parse_defs)

lemma parseInt_digit_1: "parseInt ''1'' = Num 1"
  by (simp add: parse_defs)

lemma parseInt_digit_3: "parseInt ''3'' = Num 3"
  by (simp add: parse_defs)

lemma parseInt_digit_5: "parseInt ''5'' = Num 5"
  by (simp add: parse_defs)

lemma parseInt_minus_3: "parseInt ''-3'' = Num (- 3)"
  by (simp add: parse_defs)

lemma to_double_small: "\<bar>i\<bar> < 2 ^ 53 \<Longrightarrow> to_double i = Num i"
  by (simp add: to_double_def)

text \<open>Adding 1 to \<open>2 ^ 53\<close> and subtracting 1 from \<open>2 ^ 53 + 2\<close> both give \<open>2 ^ 53\<close>.\<close>

lemma js_add_rounds:
  "js_add (Num 9007199254740992) 1 = Num 9007199254740992
   \<and> js_add (Num 9007199254740994) (- 1) = Num 9007199254740992"
  by (simp add: to_double_def bit_length.simps)

text \<open>The request sent at mount, and the page a request carries.\<close>

lemma issued_mount: "issued (mount sp :: ('r, 'e) directory) = [fetch_params (initial_filters sp)]"
  by (simp add: mount_def initial_state_def fetchData_start_def)

lemma page_fetch_params: "map_of (fetch_params f) ''page'' = Some (JNum (page f))"
  by (simp add: fetch_params_def split: option.splits)

lemma run_Nil: "run s [] = s"
  by (simp add: run_def)

lemma run_Cons: "run s (e # es) = run (step s e) es"
  by (simp add: run_def)

lemma data_step:
  "data (step s e) = (case e of Resolved r \<Rightarrow> r | _ \<Rightarrow> data s)"
  by (cases e) (simp_all add: directory_defs)

lemma searchParams_step: "searchParams (step s e) = searchParams s"
  by (cases e) (simp_all add: directory_defs)

lemma searchParams_run: "searchParams (run s es) = searchParams s"
  by (induction es arbitrary: s) (simp_all add: run_Nil run_Cons searchParams_step)

lemma per_page_fetch_params: "map_of (fetch_params f) ''per_page'' = Some (JNum (Num 50))"
  by (simp add: fetch_params_def split: option.splits)

text \<open>Every request on the log was built by \<open>fetch_params\<close>, or was there before.\<close>

lemma issued_step:
  "set (issued (step s e)) \<subseteq> set (issued s) \<union> range fetch_params"
  by (cases e) (auto simp add: directory_defs)

lemma issued_run:
  "set (issued (run s es)) \<subseteq> set (issued s) \<union> range fetch_params"
proof (induction es arbitrary: s)
  case Nil
  show ?case by (simp add: run_Nil)
next
  case (Cons e es)
  have "set (issued (run (step s e) es)) \<subseteq> set (issued (step s e)) \<union> range fetch_params"
    by (rule Cons.IH)
  with issued_step [of s e] show ?case
    by (auto simp add: run_Cons)
qed

section \<open>Overlapping fetches\<close>

text \<open>
  C1, as the code has it. The component keeps no sequence number and compares nothing
  when a response arrives: every successful response replaces the displayed page, so
  after any history the displayed page is the result of the response that arrived last
  (and the initial page when none has arrived). No response is discarded.
\<close>

theorem displayed_is_last_arrived:
  "data (run s es) = (case last_resolved es of None \<Rightarrow> data s | Some r \<Rightarrow> r)"
proof (induction es arbitrary: s)
  case Nil
  show ?case by (simp add: run_Nil)
next
  case (Cons e es)
  show ?case
    by (simp add: run_Cons Cons.IH data_step split: option.splits event.splits)
qed

text \<open>
  The statement that the page of the request issued last is displayed fails. Request A
  (state CA) is issued at mount, request B (state NY) after the state filter changes;
  B's response arrives first, A's second: the page displayed is A's, not B's.
\<close>

theorem stale_response_overwrites:
  "issued (run (mount [''state'' \<mapsto> ''CA'']) [Update (State ''NY'')] :: (nat, string) directory) =
     [[(''state'', JStr ''CA''), (''is_independent'', JBool True),
       (''page'', JNum (Num 1)), (''per_page'', JNum (Num 50))],
      [(''state'', JStr ''NY''), (''is_independent'', JBool True),
       (''page'', JNum (Num 1)), (''per_page'', JNum (Num 50))]]
   \<and> data (run (mount [''state'' \<mapsto> ''CA''])
        [Update (State ''NY''), Resolved page_NY, Resolved page_CA] :: (nat, string) directory)
       = page_CA
   \<and> page_CA \<noteq> page_NY"
  by (simp add: run_def directory_defs parse_defs fetch_params_def page_CA_def page_NY_def)

theorem displayed_is_last_arrived_witness:
  "data (run (mount [''state'' \<mapsto> ''CA''])
        [Update (State ''NY''), Resolved page_NY, Rejected ''x'', Resolved page_CA, Next]
          :: (nat, string) directory) = page_CA"
  using displayed_is_last_arrived
    [of "mount [''state'' \<mapsto> ''CA''] :: (nat, string) directory"
        "[Update (State ''NY''), Resolved page_NY, Rejected ''x'', Resolved page_CA, Next]"]
  by simp

section \<open>The URL\<close>

text \<open>
  C2, as the code has it. \<open>setSearchParams\<close> is never called: the query parameters of
  the URL are read once, for the initial filters, and no history of the component
  changes them; in particular \<open>updateFilter\<close> and the two page buttons leave them as
  they are.
\<close>

theorem url_never_written:
  "searchParams (run s es) = searchParams s
   \<and> searchParams (updateFilter u s) = searchParams s
   \<and> searchParams (click_prev s) = searchParams s
   \<and> searchParams (click_next s) = searchParams s"
  using searchParams_run [of s es] searchParams_step [of s "Update u"]
    searchParams_step [of s Prev] searchParams_step [of s Next]
  by simp

text \<open>
  The statement that the URL equals the criteria after each change fails: after the
  state filter is set to NY on a component mounted with no parameters, the URL still has
  no \<open>state\<close> parameter, and reading the URL again would not give the current filters.
\<close>

theorem url_not_updated:
  "searchParams (updateFilter (State ''NY'') (mount Map.empty :: (nat, string) directory))
      ''state'' = None
   \<and> state (filters (updateFilter (State ''NY'') (mount Map.empty :: (nat, string) directory)))
       = ''NY''
   \<and> initial_filters
        (searchParams (updateFilter (State ''NY'') (mount Map.empty :: (nat, string) directory)))
       \<noteq> filters (updateFilter (State ''NY'') (mount Map.empty :: (nat, string) directory))"
  by (simp add: directory_defs parse_defs)

theorem url_never_written_witness:
  "searchParams (run (mount [''state'' \<mapsto> ''CA''] :: (nat, string) directory)
      [Update (State ''NY''), Resolved page_NY, Next]) ''state'' = Some ''CA''"
  using url_never_written
    [of "mount [''state'' \<mapsto> ''CA''] :: (nat, string) directory"
        "[Update (State ''NY''), Resolved page_NY, Next]"]
  by (simp add: directory_defs)

section \<open>A failed fetch\<close>

text \<open>
  C3, as the code has it. When a listing fetch fails, the displayed page is unchanged,
  \<open>loading\<close> is set to false and the error is written to the console; what is rendered
  is what was rendered before with \<open>loading\<close> false. The component has no error state.
\<close>

theorem failed_fetch_keeps_page:
  "data (fetchData_rejected e s) = data s
   \<and> loading (fetchData_rejected e s) = False
   \<and> console (fetchData_rejected e s) = console s @ [e]
   \<and> rendered (fetchData_rejected e s) = rendered (s\<lparr> loading := False \<rparr>)"
  by (simp add: fetchData_rejected_def rendered_def)

text \<open>
  The statement that an error flag is set fails: a fetch that fails is rendered exactly
  as a fetch that succeeds with the page already displayed, so nothing that is rendered
  tells the failure apart.
\<close>

theorem failure_not_flagged:
  "rendered (fetchData_rejected ''timeout'' (mount Map.empty :: (nat, string) directory))
   = rendered (fetchData_resolved (data (mount Map.empty :: (nat, string) directory))
        (mount Map.empty :: (nat, string) directory))"
  by (simp add: rendered_def directory_defs)

theorem failed_fetch_keeps_page_witness:
  "data (fetchData_rejected ''timeout''
      (run (mount Map.empty) [Resolved page_CA, Update (State ''NY'')] :: (nat, string) directory))
     = page_CA
   \<and> loading (fetchData_rejected ''timeout''
      (run (mount Map.empty) [Resolved page_CA, Update (State ''NY'')] :: (nat, string) directory))
     = False
   \<and> console (fetchData_rejected ''timeout''
      (run (mount Map.empty) [Resolved page_CA, Update (State ''NY'')] :: (nat, string) directory))
     = [''timeout'']"
  using failed_fetch_keeps_page
    [of "''timeout''"
        "run (mount Map.empty) [Resolved page_CA, Update (State ''NY'')] :: (nat, string) directory"]
  by (simp add: run_def directory_defs)

section \<open>Pagination reset\<close>

text \<open>
  C4. For every filter field and every value, \<open>updateFilter\<close> yields criteria whose page
  number is 1 (whatever the field, so in particular for every field other than the page).
\<close>

theorem updateFilter_resets_page:
  "page (filters (updateFilter u s)) = Num 1"
  by (simp add: updateFilter_def setFilters_def fetchData_start_def)

theorem updateFilter_resets_page_witness:
  "page (filters (updateFilter (State ''NY'')
      (fetchData_resolved (page_of_5 3)
        (mount [''page'' \<mapsto> ''3''] :: (nat, string) directory)))) = Num 1"
  using updateFilter_resets_page
    [of "State ''NY''"
        "fetchData_resolved (page_of_5 3) (mount [''page'' \<mapsto> ''3''] :: (nat, string) directory)"]
  by simp

section \<open>Page navigation\<close>

text \<open>
  C5, as the code has it. The page of the criteria is never clamped: the request sent at
  mount carries the page read from the URL as it is, below 1 or not, and every request
  carries the page of the criteria it is built from. When the page displayed is the page
  of the criteria, "next" is a no-op when the page number is at least the number of
  pages and "previous" is a no-op when the page number is at most 1; otherwise, with
  more than one page, they add 1 to, or subtract 1 from, the page of the criteria and a
  request for that page is sent.
\<close>

theorem navigation_guards:
  "(page (filters s) = Num (res_page (data s)) \<and> res_total_pages (data s) \<le> res_page (data s)
      \<longrightarrow> click_next s = s)
   \<and> (page (filters s) = Num (res_page (data s)) \<and> res_page (data s) \<le> 1
      \<longrightarrow> click_prev s = s)
   \<and> (page (filters s) = Num (res_page (data s)) \<and> 1 < res_total_pages (data s)
        \<and> res_page (data s) < res_total_pages (data s)
      \<longrightarrow> filters (click_next s) = (filters s)\<lparr> page := js_add (page (filters s)) 1 \<rparr>
        \<and> issued (click_next s) = issued s @ [fetch_params (filters (click_next s))])
   \<and> (page (filters s) = Num (res_page (data s)) \<and> 1 < res_total_pages (data s)
        \<and> 1 < res_page (data s)
      \<longrightarrow> filters (click_prev s) = (filters s)\<lparr> page := js_add (page (filters s)) (- 1) \<rparr>
        \<and> issued (click_prev s) = issued s @ [fetch_params (filters (click_prev s))])
   \<and> issued (mount sp :: ('r, 'e) directory) = [fetch_params (initial_filters sp)]
   \<and> map_of (fetch_params f) ''page'' = Some (JNum (page f))"
proof -
  have nxt: "page (filters s) = Num (res_page (data s))
      \<and> res_total_pages (data s) \<le> res_page (data s) \<longrightarrow> click_next s = s"
    by (simp add: click_next_def next_disabled_def)
  have prv: "page (filters s) = Num (res_page (data s)) \<and> res_page (data s) \<le> 1
      \<longrightarrow> click_prev s = s"
    by (simp add: click_prev_def prev_disabled_def)
  have up: "page (filters s) = Num (res_page (data s)) \<and> 1 < res_total_pages (data s)
        \<and> res_page (data s) < res_total_pages (data s)
      \<longrightarrow> filters (click_next s) = (filters s)\<lparr> page := js_add (page (filters s)) 1 \<rparr>
        \<and> issued (click_next s) = issued s @ [fetch_params (filters (click_next s))]"
    by (simp add: click_next_def pagination_shown_def next_disabled_def setFilters_def
        fetchData_start_def)
  have down: "page (filters s) = Num (res_page (data s)) \<and> 1 < res_total_pages (data s)
        \<and> 1 < res_page (data s)
      \<longrightarrow> filters (click_prev s) = (filters s)\<lparr> page := js_add (page (filters s)) (- 1) \<rparr>
        \<and> issued (click_prev s) = issued s @ [fetch_params (filters (click_prev s))]"
    by (simp add: click_prev_def pagination_shown_def prev_disabled_def setFilters_def
        fetchData_start_def)
  have first: "issued (mount sp :: ('r, 'e) directory) = [fetch_params (initial_filters sp)]"
    by (rule issued_mount)
  have sent: "map_of (fetch_params f) ''page'' = Some (JNum (page f))"
    by (rule page_fetch_params)
  from nxt prv up down first sent show ?thesis by blast
qed

text \<open>
  The statement that no fetch is issued with a page below 1 fails: a URL with \<open>page=0\<close>
  makes the request sent at mount carry page 0, and \<open>page=-3\<close> page -3.
\<close>

theorem page_below_one_is_fetched:
  "page (filters (mount [''page'' \<mapsto> ''0''] :: (nat, string) directory)) = Num 0
   \<and> issued (mount [''page'' \<mapsto> ''0''] :: (nat, string) directory)
       = [[(''is_independent'', JBool True), (''page'', JNum (Num 0)),
           (''per_page'', JNum (Num 50))]]
   \<and> map_of (last (issued (mount [''page'' \<mapsto> ''-3''] :: (nat, string) directory))) ''page''
       = Some (JNum (Num (- 3)))"
  by (simp add: mount_def initial_state_def fetchData_start_def fetch_params_def
      initial_filters_def or_else_def parseInt_digit_0 parseInt_minus_3)

theorem navigation_guards_witness:
  "click_next (run (mount [''page'' \<mapsto> ''5'']) [Resolved (page_of_5 5)] :: (nat, string) directory)
     = run (mount [''page'' \<mapsto> ''5'']) [Resolved (page_of_5 5)]
   \<and> click_prev (run (mount Map.empty) [Resolved (page_of_5 1)] :: (nat, string) directory)
     = run (mount Map.empty) [Resolved (page_of_5 1)]
   \<and> page (filters (click_next
        (run (mount [''page'' \<mapsto> ''3'']) [Resolved (page_of_5 3)] :: (nat, string) directory)))
     = Num 4
   \<and> map_of (last (issued (click_next
        (run (mount [''page'' \<mapsto> ''3'']) [Resolved (page_of_5 3)] :: (nat, string) directory))))
        ''page'' = Some (JNum (Num 4))
   \<and> page (filters (click_prev
        (run (mount [''page'' \<mapsto> ''3'']) [Resolved (page_of_5 3)] :: (nat, string) directory)))
     = Num 2
   \<and> issued (mount [''page'' \<mapsto> ''0''] :: (nat, string) directory)
     = [fetch_params (initial_filters [''page'' \<mapsto> ''0''])]"
proof -
  let ?s5 = "run (mount [''page'' \<mapsto> ''5'']) [Resolved (page_of_5 5)] :: (nat, string) directory"
  let ?s1 = "run (mount Map.empty) [Resolved (page_of_5 1)] :: (nat, string) directory"
  let ?s3 = "run (mount [''page'' \<mapsto> ''3'']) [Resolved (page_of_5 3)] :: (nat, string) directory"
  have s5: "page (filters ?s5) = Num (res_page (data ?s5))
      \<and> res_total_pages (data ?s5) \<le> res_page (data ?s5)"
    by (simp add: run_def mount_def initial_state_def fetchData_start_def fetchData_resolved_def
        initial_filters_def or_else_def parseInt_digit_5 page_of_5_def)
  have s1: "page (filters ?s1) = Num (res_page (data ?s1)) \<and> res_page (data ?s1) \<le> 1"
    by (simp add: run_def mount_def initial_state_def fetchData_start_def fetchData_resolved_def
        initial_filters_def or_else_def parseInt_digit_1 page_of_5_def)
  have s3: "page (filters ?s3) = Num 3"
    by (simp add: run_def mount_def initial_state_def fetchData_start_def fetchData_resolved_def
        initial_filters_def or_else_def parseInt_digit_3 page_of_5_def)
  have s3_next: "page (filters ?s3) = Num (res_page (data ?s3)) \<and> 1 < res_total_pages (data ?s3)
      \<and> res_page (data ?s3) < res_total_pages (data ?s3)"
    by (simp add: run_def mount_def initial_state_def fetchData_start_def fetchData_resolved_def
        initial_filters_def or_else_def parseInt_digit_3 page_of_5_def)
  have s3_prev: "page (filters ?s3) = Num (res_page (data ?s3)) \<and> 1 < res_total_pages (data ?s3)
      \<and> 1 < res_page (data ?s3)"
    by (simp add: run_def mount_def initial_state_def fetchData_start_def fetchData_resolved_def
        initial_filters_def or_else_def parseInt_digit_3 page_of_5_def)
  have a: "click_next ?s5 = ?s5"
    using navigation_guards [where s = ?s5 and sp = Map.empty and f = austin] s5 by blast
  have b: "click_prev ?s1 = ?s1"
    using navigation_guards [where s = ?s1 and sp = Map.empty and f = austin] s1 by blast
  have c: "filters (click_next ?s3) = (filters ?s3)\<lparr> page := js_add (page (filters ?s3)) 1 \<rparr>
      \<and> issued (click_next ?s3) = issued ?s3 @ [fetch_params (filters (click_next ?s3))]"
    using navigation_guards [where s = ?s3 and sp = Map.empty and f = austin] s3_next by blast
  have d: "filters (click_prev ?s3) = (filters ?s3)\<lparr> page := js_add (page (filters ?s3)) (- 1) \<rparr>"
    using navigation_guards [where s = ?s3 and sp = Map.empty and f = austin] s3_prev by blast
  have e: "issued (mount [''page'' \<mapsto> ''0''] :: (nat, string) directory)
      = [fetch_params (initial_filters [''page'' \<mapsto> ''0''])]"
    using navigation_guards [where sp = "[''page'' \<mapsto> ''0'']" and 'r = nat and 'e = string]
    by blast
  from c s3 have c1: "page (filters (click_next ?s3)) = Num 4"
    by (simp add: to_double_small)
  from c have "last (issued (click_next ?s3)) = fetch_params (filters (click_next ?s3))"
    by simp
  with c1 have c2: "map_of (last (issued (click_next ?s3))) ''page'' = Some (JNum (Num 4))"
    by (simp add: page_fetch_params)
  from d s3 have d1: "page (filters (click_prev ?s3)) = Num 2"
    by (simp add: to_double_small)
  from a b c1 c2 d1 e show ?thesis by simp
qed

text \<open>
  Outside the statement above: before the response to a page change arrives, the buttons
  are still judged on the page displayed, so a second click passes a guard that the first
  click has made out of date. The listing of changes (\<open>Changes.jsx\<close>) judges its buttons on
  the page requested instead.
\<close>

lemma stale_guard_double_click:
  "page (filters (run (mount [''page'' \<mapsto> ''3''])
        [Resolved (page_of_5 3), Prev, Prev, Prev] :: (nat, string) directory)) = Num 0
   \<and> page (filters (run (mount [''page'' \<mapsto> ''3''])
        [Resolved (page_of_5 3), Next, Next, Next] :: (nat, string) directory)) = Num 6"
  by (simp add: run_def directory_defs initial_filters_def or_else_def parseInt_digit_3
      page_of_5_def to_double_small)

section \<open>Initial filters\<close>

text \<open>
  C6, as the code has it. The initial filters are read from the URL's parameters, and
  every parameter that is missing or empty falls back to its default: empty text, no
  state, city or zip filter, page 1. A search, state, city or zip parameter that is
  present is taken as it is. \<open>is_independent\<close> is false when the parameter is exactly
  the text \<open>false\<close> and true otherwise. A \<open>page\<close> parameter that is not empty is not
  validated: the page is what \<open>parseInt\<close> makes of it.
\<close>

theorem initial_filters_defaults:
  "(sp ''search'' = None \<or> sp ''search'' = Some [] \<longrightarrow> search (initial_filters sp) = [])
   \<and> (sp ''state'' = None \<or> sp ''state'' = Some [] \<longrightarrow> state (initial_filters sp) = [])
   \<and> (sp ''city'' = None \<or> sp ''city'' = Some [] \<longrightarrow> city (initial_filters sp) = [])
   \<and> (sp ''zip'' = None \<or> sp ''zip'' = Some [] \<longrightarrow> zip_f (initial_filters sp) = [])
   \<and> (sp ''is_independent'' \<noteq> Some ''false'' \<longrightarrow>
        is_independent (initial_filters sp) = Some True)
   \<and> (sp ''page'' = None \<or> sp ''page'' = Some [] \<longrightarrow> page (initial_filters sp) = Num 1)
   \<and> (\<forall>v. sp ''search'' = Some v \<longrightarrow> search (initial_filters sp) = v)
   \<and> (\<forall>v. sp ''state'' = Some v \<longrightarrow> state (initial_filters sp) = v)
   \<and> (\<forall>v. sp ''city'' = Some v \<longrightarrow> city (initial_filters sp) = v)
   \<and> (\<forall>v. sp ''zip'' = Some v \<longrightarrow> zip_f (initial_filters sp) = v)
   \<and> (sp ''is_independent'' = Some ''false'' \<longrightarrow>
        is_independent (initial_filters sp) = Some False)
   \<and> (\<forall>v. sp ''page'' = Some v \<and> v \<noteq> [] \<longrightarrow> page (initial_filters sp) = parseInt v)"
proof -
  have absent:
    "(sp ''search'' = None \<or> sp ''search'' = Some [] \<longrightarrow> search (initial_filters sp) = [])
     \<and> (sp ''state'' = None \<or> sp ''state'' = Some [] \<longrightarrow> state (initial_filters sp) = [])
     \<and> (sp ''city'' = None \<or> sp ''city'' = Some [] \<longrightarrow> city (initial_filters sp) = [])
     \<and> (sp ''zip'' = None \<or> sp ''zip'' = Some [] \<longrightarrow> zip_f (initial_filters sp) = [])"
    by (auto simp add: initial_filters_def or_else_def)
  have present:
    "(\<forall>v. sp ''search'' = Some v \<longrightarrow> search (initial_filters sp) = v)
     \<and> (\<forall>v. sp ''state'' = Some v \<longrightarrow> state (initial_filters sp) = v)
     \<and> (\<forall>v. sp ''city'' = Some v \<longrightarrow> city (initial_filters sp) = v)
     \<and> (\<forall>v. sp ''zip'' = Some v \<longrightarrow> zip_f (initial_filters sp) = v)"
    by (simp add: initial_filters_def or_else_def)
  have indep:
    "(sp ''is_independent'' \<noteq> Some ''false'' \<longrightarrow>
        is_independent (initial_filters sp) = Some True)
     \<and> (sp ''is_independent'' = Some ''false'' \<longrightarrow>
        is_independent (initial_filters sp) = Some False)"
    by (simp add: initial_filters_def)
  have page_default:
    "sp ''page'' = None \<or> sp ''page'' = Some [] \<longrightarrow> page (initial_filters sp) = Num 1"
    by (auto simp add: initial_filters_def or_else_def parseInt_digit_1)
  have page_given:
    "\<forall>v. sp ''page'' = Some v \<and> v \<noteq> [] \<longrightarrow> page (initial_filters sp) = parseInt v"
    by (simp add: initial_filters_def or_else_def)
  from absent present indep page_default page_given show ?thesis by blast
qed

text \<open>
  The statement that an invalid parameter falls back to its default fails for the page:
  \<open>abc\<close> gives \<open>NaN\<close>, \<open>0\<close> gives 0 and \<open>-3\<close> gives -3, none of them page 1.
\<close>

theorem invalid_page_not_defaulted:
  "page (initial_filters [''page'' \<mapsto> ''abc'']) = NaN
   \<and> page (initial_filters [''page'' \<mapsto> ''0'']) = Num 0
   \<and> page (initial_filters [''page'' \<mapsto> ''-3'']) = Num (- 3)"
proof -
  have "parseInt ''abc'' = NaN"
    by (simp add: parse_defs)
  then show ?thesis
    by (simp add: initial_filters_def or_else_def parseInt_digit_0 parseInt_minus_3)
qed

theorem initial_filters_defaults_witness:
  "initial_filters [''search'' \<mapsto> ''cvs'', ''state'' \<mapsto> ''CA'', ''city'' \<mapsto> ''Austin'',
       ''zip'' \<mapsto> ''787'', ''is_independent'' \<mapsto> ''false'', ''page'' \<mapsto> ''12'']
     = \<lparr> search = ''cvs'', state = ''CA'', city = ''Austin'', zip_f = ''787'',
         is_independent = Some False, page = Num 12 \<rparr>
   \<and> initial_filters [''state'' \<mapsto> [], ''is_independent'' \<mapsto> ''no'', ''page'' \<mapsto> []]
     = \<lparr> search = [], state = [], city = [], zip_f = [], is_independent = Some True,
         page = Num 1 \<rparr>
   \<and> page (initial_filters [''page'' \<mapsto> [CHR 0xC2, CHR 0xA0, CHR ''4'', CHR ''2'']]) = Num 42
   \<and> page (initial_filters [''page'' \<mapsto> ''9007199254740993'']) = Num 9007199254740992"
proof -
  let ?full = "[''search'' \<mapsto> ''cvs'', ''state'' \<mapsto> ''CA'', ''city'' \<mapsto> ''Austin'',
       ''zip'' \<mapsto> ''787'', ''is_independent'' \<mapsto> ''false'', ''page'' \<mapsto> ''12'']"
  let ?bare = "[''state'' \<mapsto> [], ''is_independent'' \<mapsto> ''no'', ''page'' \<mapsto> []]"
  let ?nbsp = "[''page'' \<mapsto> [CHR 0xC2, CHR 0xA0, CHR ''4'', CHR ''2'']]"
  let ?big = "[''page'' \<mapsto> ''9007199254740993'']"
  have p12: "parseInt ''12'' = Num 12"
    by (simp add: parse_defs)
  have p42: "parseInt [CHR 0xC2, CHR 0xA0, CHR ''4'', CHR ''2''] = Num 42"
    by (simp add: parse_defs)
  have pbig: "parseInt ''9007199254740993'' = Num 9007199254740992"
    by (simp add: parse_defs bit_length.simps)
  have full: "search (initial_filters ?full) = ''cvs'' \<and> state (initial_filters ?full) = ''CA''
      \<and> city (initial_filters ?full) = ''Austin'' \<and> zip_f (initial_filters ?full) = ''787''
      \<and> is_independent (initial_filters ?full) = Some False
      \<and> page (initial_filters ?full) = parseInt ''12''"
    using initial_filters_defaults [of ?full] by simp
  have bare: "search (initial_filters ?bare) = [] \<and> state (initial_filters ?bare) = []
      \<and> city (initial_filters ?bare) = [] \<and> zip_f (initial_filters ?bare) = []
      \<and> is_independent (initial_filters ?bare) = Some True
      \<and> page (initial_filters ?bare) = Num 1"
    using initial_filters_defaults [of ?bare] by simp
  have nbsp: "page (initial_filters ?nbsp) = parseInt [CHR 0xC2, CHR 0xA0, CHR ''4'', CHR ''2'']"
    using initial_filters_defaults [of ?nbsp] by simp
  have big: "page (initial_filters ?big) = parseInt ''9007199254740993''"
    using initial_filters_defaults [of ?big] by simp
  from full p12 have "initial_filters ?full
      = \<lparr> search = ''cvs'', state = ''CA'', city = ''Austin'', zip_f = ''787'',
          is_independent = Some False, page = Num 12 \<rparr>"
    by (cases "initial_filters ?full") simp
  moreover from bare have "initial_filters ?bare
      = \<lparr> search = [], state = [], city = [], zip_f = [], is_independent = Some True,
          page = Num 1 \<rparr>"
    by (cases "initial_filters ?bare") simp
  moreover from nbsp p42 have "page (initial_filters ?nbsp) = Num 42"
    by simp
  moreover from big pbig have "page (initial_filters ?big) = Num 9007199254740992"
    by simp
  ultimately show ?thesis by simp
qed

section \<open>The outgoing query\<close>

text \<open>
  C7, as the code has it. The free text is sent as the \<open>search\<close> parameter of the
  listing query if and only if it is not the empty string; it is not trimmed. Setting
  the free text to the empty string issues a query with no \<open>search\<close> parameter.
\<close>

theorem search_sent_iff_nonempty:
  "map_of (fetch_params f) ''search'' = (if search f = [] then None else Some (JStr (search f)))
   \<and> map_of (last (issued (updateFilter (Search []) s))) ''search'' = None"
  by (simp add: fetch_params_def directory_defs split: option.splits)

text \<open>
  The statement with trimming fails: a free text of two spaces is empty after trimming
  and is sent.
\<close>

theorem blank_search_is_sent:
  "js_trim ''  '' = []
   \<and> map_of (last (issued (updateFilter (Search ''  '')
        (mount Map.empty :: (nat, string) directory)))) ''search'' = Some (JStr ''  '')"
  by (simp add: js_trim_def fetch_params_def directory_defs parse_defs)

theorem search_sent_iff_nonempty_witness:
  "map_of (fetch_params (initial_filters [''search'' \<mapsto> ''cvs''])) ''search''
     = Some (JStr ''cvs'')
   \<and> map_of (last (issued (updateFilter (Search [])
        (mount [''search'' \<mapsto> ''cvs''] :: (nat, string) directory)))) ''search'' = None"
  using search_sent_iff_nonempty
    [of "initial_filters [''search'' \<mapsto> ''cvs'']"
        "mount [''search'' \<mapsto> ''cvs''] :: (nat, string) directory"]
  by (simp add: initial_filters_def or_else_def)

section \<open>Export\<close>

text \<open>
  C8 at an input where the code departs from it. With the city filter set to Austin, the
  listing query carries \<open>city\<close>, and the export request does not: \<open>exportCSV\<close> copies
  \<open>state\<close>, \<open>is_independent\<close> and \<open>search\<close> only, where \<open>fetchData\<close> also copies \<open>city\<close>
  and \<open>zip\<close>.
\<close>

theorem export_omits_city_and_zip:
  "fetch_params austin =
     [(''city'', JStr ''Austin''), (''is_independent'', JBool True),
      (''page'', JNum (Num 1)), (''per_page'', JNum (Num 50))]
   \<and> export_params austin = [(''is_independent'', ''true'')]
   \<and> opened (exportCSV (mount [''city'' \<mapsto> ''Austin''] :: (nat, string) directory))
       = [[(''is_independent'', ''true'')]]"
  by (simp add: austin_def fetch_params_def export_params_def directory_defs parse_defs)

section \<open>Login\<close>

text \<open>
  C9. If the login call succeeds, the token of the response is stored, the identity is
  set, the protected routes are admitted and the response body is returned. If it
  fails, the call fails with the error of the login call and the session is exactly as
  before: no token is stored, the identity and the admission are unchanged.
\<close>

theorem login_contract:
  "(post email password = Inr res \<longrightarrow>
      fst (login post email password s) = Inr res
      \<and> token (snd (login post email password s)) = Some (access_token res)
      \<and> auth_user (snd (login post email password s)) = Some (user res)
      \<and> ProtectedRoute (snd (login post email password s)))
   \<and> (post email password = Inl err \<longrightarrow>
      fst (login post email password s) = Inl err
      \<and> snd (login post email password s) = s
      \<and> token (snd (login post email password s)) = token s
      \<and> auth_user (snd (login post email password s)) = auth_user s
      \<and> ProtectedRoute (snd (login post email password s)) = ProtectedRoute s)"
  by (simp add: login_def ProtectedRoute_def)

theorem login_contract_witness:
  "login demo_server ''admin@pharma.local'' ''admin123'' anonymous
     = (Inr \<lparr> access_token = ''T'', user = ''admin@pharma.local'' \<rparr>,
        \<lparr> token = Some ''T'', auth_user = Some ''admin@pharma.local'', auth_loading = False \<rparr>)
   \<and> ProtectedRoute (snd (login demo_server ''admin@pharma.local'' ''admin123'' anonymous))
   \<and> login demo_server ''admin@pharma.local'' ''wrong'' anonymous = (Inl ''401'', anonymous)
   \<and> \<not> ProtectedRoute (snd (login demo_server ''admin@pharma.local'' ''wrong'' anonymous))"
  using login_contract
    [of demo_server "''admin@pharma.local''" "''admin123''"
        "\<lparr> access_token = ''T'', user = ''admin@pharma.local'' \<rparr>" anonymous]
    login_contract
    [of demo_server "''admin@pharma.local''" "''wrong''" _ anonymous "''401''"]
  by (simp add: demo_server_def anonymous_def login_def ProtectedRoute_def)

section \<open>Page size\<close>

text \<open>
  C10. Every listing request issued by the component, at mount or in any history of
  filter changes, page navigation, exports and responses after it, whatever the URL's
  parameters, carries \<open>per_page = 50\<close>.
\<close>

theorem per_page_always_50:
  assumes "p \<in> set (issued (run (mount sp :: ('r, 'e) directory) es))"
  shows "map_of p ''per_page'' = Some (JNum (Num 50))"
proof -
  have "set (issued (run (mount sp :: ('r, 'e) directory) es))
      \<subseteq> set (issued (mount sp :: ('r, 'e) directory)) \<union> range fetch_params"
    by (rule issued_run)
  with assms have "p \<in> set (issued (mount sp :: ('r, 'e) directory)) \<union> range fetch_params"
    by (rule subsetD [rotated])
  then have "p \<in> range fetch_params"
    by (auto simp add: mount_def initial_state_def fetchData_start_def)
  then show ?thesis
    by (auto simp add: per_page_fetch_params)
qed

theorem per_page_always_50_witness:
  "[(''state'', JStr ''NY''), (''is_independent'', JBool True),
       (''page'', JNum (Num 1)), (''per_page'', JNum (Num 50))]
     \<in> set (issued (run (mount [''page'' \<mapsto> ''7''])
          [Update (State ''NY''), Rejected ''x''] :: (nat, string) directory))
   \<and> map_of [(''state'', JStr ''NY''), (''is_independent'', JBool True),
       (''page'', JNum (Num 1)), (''per_page'', JNum (Num 50))] ''per_page''
     = Some (JNum (Num 50))"
proof -
  have h: "[(''state'', JStr ''NY''), (''is_independent'', JBool True),
       (''page'', JNum (Num 1)), (''per_page'', JNum (Num 50))]
     \<in> set (issued (run (mount [''page'' \<mapsto> ''7''])
          [Update (State ''NY''), Rejected ''x''] :: (nat, string) directory))"
    by (simp add: run_def directory_defs parse_defs fetch_params_def)
  from h per_page_always_50 [OF h] show ?thesis by simp
qed

end
